theory Spec2Isabelle
  imports Main "HOL-Library.Word" "HOL-Library.AList"
begin

unbundle bit_operations_syntax

section \<open>Data model\<close>

text \<open>
  Go's \<open>error\<close> values, as far as \<open>tap.go\<close> tells them apart:
  \<open>netlink.LinkNotFoundError\<close> (type test on line 58), \<open>ip.ErrLinkNotFound\<close>
  (identity test on line 212), \<open>ns.NSPathNotExistErr\<close> (type test on line 222),
  \<open>errors.New\<close>, \<open>fmt.Errorf\<close> wrapping an inner error (the format string is kept
  up to its first verb), and any other failure reported by a collaborator.
\<close>

datatype error =
    LinkNotFoundError
  | ErrLinkNotFound
  | NSPathNotExistErr
  | Failure string
  | Errorf string error
  | ErrorsNew string

text \<open>\<open>net.IPNet\<close>: both fields are byte slices in Go.\<close>

record IPNet =
  IP :: "8 word list"
  Mask :: "8 word list"

text \<open>\<open>NetConf\<close> of \<open>tap.go\<close> with the fields of the embedded \<open>types.NetConf\<close> that the plugin reads.\<close>

record NetConf =
  CNIVersion :: string
  IPAM_Type :: string
  Bridge :: string
  BridgeIP :: string

text \<open>\<open>skel.CmdArgs\<close>: the fields the plugin reads.\<close>

record CmdArgs =
  IfName :: string
  StdinData :: string

text \<open>\<open>current.Interface\<close>, \<open>current.IPConfig\<close>, \<open>types.Route\<close>, \<open>types.DNS\<close>, \<open>current.Result\<close>.\<close>

record Interface =
  Name :: string
  Mac :: string
  Sandbox :: string

record IPConfig =
  ipc_Interface :: "int option"
  ipc_Address :: string
  ipc_Gateway :: string

record Route =
  Dst :: string
  GW :: string

record DNS =
  Nameservers :: "string list"
  Domain :: string
  Search :: "string list"
  Options :: "string list"

record Result =
  res_CNIVersion :: string
  Interfaces :: "Interface list"
  IPs :: "IPConfig list"
  Routes :: "Route list"
  res_DNS :: DNS
  Annotations :: "(string \<times> string) list option"

definition empty_DNS :: DNS where
  "empty_DNS = \<lparr>Nameservers = [], Domain = [], Search = [], Options = []\<rparr>"

text \<open>\<open>&current.Result{}\<close>: every field at its zero value (the annotation map is nil).\<close>

definition empty_Result :: Result where
  "empty_Result = \<lparr>res_CNIVersion = [], Interfaces = [], IPs = [], Routes = [],
     res_DNS = empty_DNS, Annotations = None\<rparr>"

text \<open>\<open>dan.DirectAttachableNetworkType\<close> and its three constants, with their string values.\<close>

datatype DirectAttachableNetworkType =
    DirectAttachableNetworkTypeTap
  | DirectAttachableNetworkTypePassthrough
  | DirectAttachableNetworkTypeDPDK

fun networkType_string :: "DirectAttachableNetworkType \<Rightarrow> string" where
  "networkType_string DirectAttachableNetworkTypeTap = ''tap''"
| "networkType_string DirectAttachableNetworkTypePassthrough = ''passthrough''"
| "networkType_string DirectAttachableNetworkTypeDPDK = ''dpdk''"

record DirectAttachableNetwork =
  NetworkType :: DirectAttachableNetworkType
  DeviceName :: string
  ContainerInterfaceName :: string
  DPDKSocketPath :: string
  HWAddr :: string
  KernelPath :: string
  PCIAddr :: string
  dan_Interfaces :: "Interface list"
  dan_IPs :: "IPConfig list"
  dan_Routes :: "Route list"
  dan_DNS :: DNS
  dan_Annotations :: "(string \<times> string) list option"

text \<open>
  The bytes handed to \<open>os.WriteFile\<close>: the value of
  \<open>json.MarshalIndent(dan, prefix, indent)\<close>, kept symbolic (record, prefix, indent).
\<close>

datatype body = MarshalIndent DirectAttachableNetwork string string

section \<open>The host: links, and the calls made on the collaborators\<close>

datatype link_kind = KindBridge | KindTuntap

record link =
  l_kind :: link_kind
  l_addrs :: "IPNet list"
  l_master :: "string option"
  l_up :: bool
  l_hwaddr :: string

text \<open>
  Every call that leaves the process is recorded, in order: the netlink calls of
  \<open>createTapInterface\<close>, \<open>ip.DelLinkByName\<close>, the delegate calls \<open>ipam.ExecAdd\<close> and
  \<open>ipam.ExecDel\<close> (plugin type, raw configuration), \<open>types.PrintResult\<close>, and the two
  file-system calls of \<open>Save\<close> with their permission arguments (\<open>os.FileMode\<close> is a
  32-bit unsigned integer). The diagnostic lines of \<open>dan.Log\<close> are not part of the model.
\<close>

datatype event =
    EvLinkByName string
  | EvLinkAdd link_kind string
  | EvAddrAdd string IPNet
  | EvLinkSetMaster string string
  | EvLinkSetUp string
  | EvDelLinkByName string
  | EvExecAdd string string
  | EvExecDel string string
  | EvPrintResult Result string
  | EvMkdirAll string "32 word"
  | EvWriteFile string body "32 word"

record world =
  links :: "string \<rightharpoonup> link"
  trace :: "event list"

text \<open>
  What the collaborators answer during one invocation. Each call site of the plugin runs
  at most once per invocation, so one answer per call site describes every behaviour of
  the collaborators: \<open>None\<close> lets a link operation take its effect on the host, \<open>Some m\<close>
  makes it fail with message \<open>m\<close> and no effect.
  \<^item> \<open>unmarshal\<close>: \<open>json.Unmarshal\<close> into a \<open>NetConf\<close> (an error or the configuration);
  \<^item> \<open>parse_cidr_other\<close>: what \<open>net.ParseCIDR\<close> answers on text that is not IPv4
    dotted-decimal text (the address and the network, or \<open>None\<close> for its parse error);
  \<^item> \<open>bridge_hwaddr\<close>, \<open>tap_hwaddr\<close>: the hardware addresses the kernel gives to the links
    it creates;
  \<^item> \<open>exec_add\<close>: the delegate's answer to \<open>ipam.ExecAdd\<close>, an error or a \<open>types.Result\<close>
    (opaque here: its raw text);
  \<^item> \<open>convert\<close>: the pair returned by \<open>current.NewResultFromResult\<close>, a \<open>*Result\<close> that may
    be nil and an error that may be nil (the library returns nil with every error);
  \<^item> \<open>del_link_fault\<close>: a failure of \<open>ip.DelLinkByName\<close> other than not-found: the
    namespace is gone, or the lookup or the deletion is refused.
\<close>

datatype del_fault = NamespaceGone | DeleteFailed string

record env =
  unmarshal :: "string \<Rightarrow> error + NetConf"
  parse_cidr_other :: "string \<Rightarrow> (8 word list \<times> IPNet) option"
  lookup_bridge_fault :: "string option"
  add_bridge_fault :: "string option"
  bridge_hwaddr :: string
  addr_add_fault :: "string option"
  add_tap_fault :: "string option"
  tap_hwaddr :: string
  set_master_fault :: "string option"
  lookup_tap_fault :: "string option"
  set_up_fault :: "string option"
  del_link_fault :: "del_fault option"
  exec_add :: "error + string"
  exec_del_fault :: "error option"
  convert :: "Result option \<times> error option"
  print_fault :: "error option"
  mkdir_fault :: "error option"
  write_fault :: "error option"

definition emit :: "event \<Rightarrow> world \<Rightarrow> world" where
  "emit e w = w\<lparr>trace := trace w @ [e]\<rparr>"

subsection \<open>Link Provider\<close>

text \<open>
  The netlink library and the kernel are outside the repository. They are modelled as
  the spec describes the Link Provider: links are found by name, with not-found a
  distinguishable condition; the kernel rejects a duplicate link name; an operation on
  a link that does not exist fails. Two refusals of the netlink library and the kernel are
  kept as well: a bridge cannot be created with an empty name, and only a bridge takes
  members.
\<close>

definition LinkByName :: "string \<Rightarrow> string option \<Rightarrow> world \<Rightarrow> (error + link) \<times> world" where
  "LinkByName name fault w =
     (let w1 = emit (EvLinkByName name) w in
      case fault of
        Some m \<Rightarrow> (Inl (Failure m), w1)
      | None \<Rightarrow>
          (case links w name of
             None \<Rightarrow> (Inl LinkNotFoundError, w1)
           | Some l \<Rightarrow> (Inr l, w1)))"

definition new_link :: "link_kind \<Rightarrow> string \<Rightarrow> link" where
  "new_link k hw = \<lparr>l_kind = k, l_addrs = [], l_master = None, l_up = False, l_hwaddr = hw\<rparr>"

definition LinkAdd :: "link_kind \<Rightarrow> string \<Rightarrow> string \<Rightarrow> string option \<Rightarrow> world \<Rightarrow> error option \<times> world" where
  "LinkAdd k name hw fault w =
     (let w1 = emit (EvLinkAdd k name) w in
      case fault of
        Some m \<Rightarrow> (Some (Failure m), w1)
      | None \<Rightarrow>
          if k = KindBridge \<and> name = [] then (Some (Failure ''LinkAttrs.Name cannot be empty''), w1)
          else if links w name \<noteq> None then (Some (Failure ''file exists''), w1)
          else (None, w1\<lparr>links := (links w)(name \<mapsto> new_link k hw)\<rparr>))"

definition AddrAdd :: "string \<Rightarrow> IPNet \<Rightarrow> string option \<Rightarrow> world \<Rightarrow> error option \<times> world" where
  "AddrAdd name addr fault w =
     (let w1 = emit (EvAddrAdd name addr) w in
      case fault of
        Some m \<Rightarrow> (Some (Failure m), w1)
      | None \<Rightarrow>
          (case links w name of
             None \<Rightarrow> (Some (Failure ''no such device''), w1)
           | Some l \<Rightarrow>
               if addr \<in> set (l_addrs l) then (Some (Failure ''file exists''), w1)
               else (None, w1\<lparr>links := (links w)(name \<mapsto> l\<lparr>l_addrs := l_addrs l @ [addr]\<rparr>)\<rparr>)))"

definition LinkSetMaster :: "string \<Rightarrow> string \<Rightarrow> string option \<Rightarrow> world \<Rightarrow> error option \<times> world" where
  "LinkSetMaster name master fault w =
     (let w1 = emit (EvLinkSetMaster name master) w in
      case fault of
        Some m \<Rightarrow> (Some (Failure m), w1)
      | None \<Rightarrow>
          (case (links w name, links w master) of
             (Some l, Some b) \<Rightarrow>
               if l_kind b = KindBridge
               then (None, w1\<lparr>links := (links w)(name \<mapsto> l\<lparr>l_master := Some master\<rparr>)\<rparr>)
               else (Some (Failure ''operation not supported''), w1)
           | _ \<Rightarrow> (Some (Failure ''no such device''), w1)))"

definition LinkSetUp :: "string \<Rightarrow> string option \<Rightarrow> world \<Rightarrow> error option \<times> world" where
  "LinkSetUp name fault w =
     (let w1 = emit (EvLinkSetUp name) w in
      case fault of
        Some m \<Rightarrow> (Some (Failure m), w1)
      | None \<Rightarrow>
          (case links w name of
             None \<Rightarrow> (Some (Failure ''no such device''), w1)
           | Some l \<Rightarrow> (None, w1\<lparr>links := (links w)(name \<mapsto> l\<lparr>l_up := True\<rparr>)\<rparr>)))"

text \<open>
  Modelled from the spec: \<open>ip.DelLinkByName\<close> (package \<open>pkg/ip\<close>, not among the sources):
  ``delete a link by name, translate not found into a distinguishable condition''. A
  link that is absent gives \<open>ErrLinkNotFound\<close> and changes nothing; otherwise the link
  is removed, unless the call fails for another reason.
\<close>

definition DelLinkByName :: "string \<Rightarrow> del_fault option \<Rightarrow> world \<Rightarrow> error option \<times> world" where
  "DelLinkByName name fault w =
     (let w1 = emit (EvDelLinkByName name) w in
      case fault of
        Some NamespaceGone \<Rightarrow> (Some NSPathNotExistErr, w1)
      | Some (DeleteFailed m) \<Rightarrow> (Some (Failure m), w1)
      | None \<Rightarrow>
          (case links w name of
             None \<Rightarrow> (Some ErrLinkNotFound, w1)
           | Some l \<Rightarrow> (None, w1\<lparr>links := (links w)(name := None)\<rparr>)))"

subsection \<open>Address Allocator\<close>

text \<open>
  Modelled from the spec: \<open>ipam.ExecAdd\<close> and \<open>ipam.ExecDel\<close> (package \<open>pkg/ipam\<close>, not
  among the sources): ``given a delegate type name and raw configuration bytes,
  allocates or releases IP configuration for the attachment; allocation may itself
  fail''. The call is recorded with its two arguments; the answer is the delegate's.
\<close>

definition ExecAdd :: "string \<Rightarrow> string \<Rightarrow> env \<Rightarrow> world \<Rightarrow> (error + string) \<times> world" where
  "ExecAdd plugin netconf env w = (exec_add env, emit (EvExecAdd plugin netconf) w)"

definition ExecDel :: "string \<Rightarrow> string \<Rightarrow> env \<Rightarrow> world \<Rightarrow> error option \<times> world" where
  "ExecDel plugin netconf env w = (exec_del_fault env, emit (EvExecDel plugin netconf) w)"

text \<open>\<open>current.NewResultFromResult\<close> and \<open>types.PrintResult\<close> of the CNI library.\<close>

definition NewResultFromResult :: "string \<Rightarrow> env \<Rightarrow> Result option \<times> error option" where
  "NewResultFromResult r env = convert env"

definition PrintResult :: "Result \<Rightarrow> string \<Rightarrow> env \<Rightarrow> world \<Rightarrow> error option \<times> world" where
  "PrintResult result version env w = (print_fault env, emit (EvPrintResult result version) w)"

section \<open>Library functions of Go used by the plugin\<close>

subsection \<open>\<open>net.ParseCIDR\<close>\<close>

text \<open>
  \<open>net.ParseCIDR\<close> splits at the first slash, parses the address and the prefix length,
  and returns the address together with the network: the address masked by the prefix
  mask (\<open>ParseCIDR("192.0.2.1/24")\<close> is \<open>192.0.2.1\<close> and \<open>192.0.2.0/24\<close>).
  \<open>parseCIDR4\<close> is its IPv4 case, written out: four decimal fields, none empty, none with
  a leading zero, none above 255, and a prefix length of at most 32. What it answers on
  any other text, IPv6 text included, is left to \<open>parse_cidr_other\<close>.
\<close>

definition is_digit :: "char \<Rightarrow> bool" where
  "is_digit c = (48 \<le> (of_char c :: nat) \<and> (of_char c :: nat) \<le> 57)"

definition dtoi :: "string \<Rightarrow> nat option" where
  "dtoi s = (if s \<noteq> [] \<and> list_all is_digit s
             then Some (foldl (\<lambda>n c. 10 * n + (of_char c - 48)) 0 s)
             else None)"

fun split_on :: "char \<Rightarrow> string \<Rightarrow> string list" where
  "split_on c [] = [[]]"
| "split_on c (x # xs) =
     (if x = c then [] # split_on c xs
      else (case split_on c xs of
              [] \<Rightarrow> [[x]]
            | y # ys \<Rightarrow> (x # y) # ys))"

definition parse_octet :: "string \<Rightarrow> 8 word option" where
  "parse_octet s =
     (case dtoi s of
        None \<Rightarrow> None
      | Some n \<Rightarrow>
          if (1 < length s \<and> hd s = CHR ''0'') \<or> 255 < n then None
          else Some (word_of_nat n))"

fun cidr_bytes :: "nat \<Rightarrow> nat \<Rightarrow> 8 word list" where
  "cidr_bytes 0 n = []"
| "cidr_bytes (Suc l) n =
     (if 8 \<le> n then 255 # cidr_bytes l (n - 8)
      else NOT (drop_bit n 255) # cidr_bytes l 0)"

definition CIDRMask :: "nat \<Rightarrow> nat \<Rightarrow> 8 word list" where
  "CIDRMask ones bits = (if bits < ones then [] else cidr_bytes (bits div 8) ones)"

definition IP_Mask :: "8 word list \<Rightarrow> 8 word list \<Rightarrow> 8 word list" where
  "IP_Mask ip m = (if length ip = length m then map (\<lambda>(a, b). a AND b) (zip ip m) else [])"

definition parseCIDR4 :: "string \<Rightarrow> (8 word list \<times> IPNet) option" where
  "parseCIDR4 s =
     (if CHR ''/'' \<notin> set s then None
      else
        let addr = takeWhile (\<lambda>c. c \<noteq> CHR ''/'') s;
            mask = tl (dropWhile (\<lambda>c. c \<noteq> CHR ''/'') s)
        in case map parse_octet (split_on (CHR ''.'') addr) of
             [Some a, Some b, Some c, Some d] \<Rightarrow>
               (case dtoi mask of
                  None \<Rightarrow> None
                | Some n \<Rightarrow>
                    if 32 < n then None
                    else
                      let m = CIDRMask n 32
                      in Some ([a, b, c, d], \<lparr>IP = IP_Mask [a, b, c, d] m, Mask = m\<rparr>))
           | _ \<Rightarrow> None)"

definition ParseCIDR :: "string \<Rightarrow> env \<Rightarrow> error + (8 word list \<times> IPNet)" where
  "ParseCIDR s env =
     (case parseCIDR4 s of
        Some r \<Rightarrow> Inr r
      | None \<Rightarrow>
          (case parse_cidr_other env s of
             Some r \<Rightarrow> Inr r
           | None \<Rightarrow> Inl (Failure ''invalid CIDR address'')))"

subsection \<open>\<open>filepath.Dir\<close> on Unix paths\<close>

text \<open>
  \<open>filepath.Dir\<close> drops the last element of the path and cleans what is left;
  \<open>filepath.Clean\<close> removes empty and \<open>.\<close> elements, resolves \<open>..\<close> against the element
  before it (dropping it at the root), and gives \<open>.\<close> for an empty result.
\<close>

fun clean_step :: "bool \<Rightarrow> string list \<Rightarrow> string \<Rightarrow> string list" where
  "clean_step rooted st c =
     (if c = ''..'' then
        (case st of
           [] \<Rightarrow> if rooted then [] else [''..'']
         | t # ts \<Rightarrow> if t = ''..'' then c # st else ts)
      else c # st)"

fun join_path :: "string list \<Rightarrow> string" where
  "join_path [] = []"
| "join_path [c] = c"
| "join_path (c # cs) = c @ ''/'' @ join_path cs"

definition Clean :: "string \<Rightarrow> string" where
  "Clean path =
     (if path = [] then ''.''
      else
        let rooted = (hd path = CHR ''/'');
            comps = filter (\<lambda>c. c \<noteq> [] \<and> c \<noteq> ''.'') (split_on (CHR ''/'') path);
            st = foldl (clean_step rooted) [] comps;
            out = (if rooted then ''/'' else []) @ join_path (rev st)
        in if out = [] then ''.'' else out)"

definition Dir :: "string \<Rightarrow> string" where
  "Dir path = Clean (rev (dropWhile (\<lambda>c. c \<noteq> CHR ''/'') (rev path)))"

section \<open>Package \<open>dan\<close>\<close>

definition FromResult ::
  "DirectAttachableNetworkType \<Rightarrow> string \<Rightarrow> string \<Rightarrow> Result \<Rightarrow> DirectAttachableNetwork" where
  "FromResult networkType device containerInfName r =
     \<lparr>NetworkType = networkType,
      DeviceName = device,
      ContainerInterfaceName = containerInfName,
      DPDKSocketPath = [],
      HWAddr = [],
      KernelPath = [],
      PCIAddr = [],
      dan_Interfaces = Interfaces r,
      dan_IPs = IPs r,
      dan_Routes = Routes r,
      dan_DNS = res_DNS r,
      dan_Annotations = Annotations r\<rparr>"

text \<open>The two permission constants of \<open>Save\<close>, octal \<open>0755\<close> and \<open>0644\<close>.\<close>

definition perm_0755 :: "32 word" where
  "perm_0755 = 7 * 64 + 5 * 8 + 5"

definition perm_0644 :: "32 word" where
  "perm_0644 = 6 * 64 + 4 * 8 + 4"

definition Save :: "DirectAttachableNetwork \<Rightarrow> string \<Rightarrow> env \<Rightarrow> world \<Rightarrow> error option \<times> world" where
  "Save dan metaFile env w =
     (let body = MarshalIndent dan [] '' '';
          path = Dir metaFile;
          w1 = emit (EvMkdirAll path perm_0755) w
      in case mkdir_fault env of
           Some err \<Rightarrow> (Some err, w1)
         | None \<Rightarrow> (write_fault env, emit (EvWriteFile metaFile body perm_0644) w1))"

section \<open>The plugin: \<open>tap.go\<close>\<close>

definition parseNetConf :: "string \<Rightarrow> env \<Rightarrow> error + NetConf" where
  "parseNetConf bytes env =
     (case unmarshal env bytes of
        Inl err \<Rightarrow> Inl (Errorf ''failed to parse network config: '' err)
      | Inr conf \<Rightarrow> Inr conf)"

text \<open>
  Lines 56 to 85 of \<open>createTapInterface\<close>: the bridge is looked up by name and, when the
  lookup says not found, created and given the network that \<open>net.ParseCIDR\<close> returns
  for \<open>conf.BridgeIP\<close> (the address that \<open>ParseCIDR\<close> returns first is discarded by
  the source). \<open>None\<close> means the function goes on, \<open>Some err\<close> that it returns \<open>err\<close>.
\<close>

definition ensureBridge :: "NetConf \<Rightarrow> env \<Rightarrow> world \<Rightarrow> error option \<times> world" where
  "ensureBridge conf env w =
     (case LinkByName (Bridge conf) (lookup_bridge_fault env) w of
        (Inr br, w1) \<Rightarrow> (None, w1)
      | (Inl err, w1) \<Rightarrow>
          if err = LinkNotFoundError then
            (case LinkAdd KindBridge (Bridge conf) (bridge_hwaddr env) (add_bridge_fault env) w1 of
               (Some e, w2) \<Rightarrow> (Some (Errorf ''failed to create bridge link: '' e), w2)
             | (None, w2) \<Rightarrow>
                 (case ParseCIDR (BridgeIP conf) env of
                    Inl e \<Rightarrow> (Some (Errorf ''failed to parse bridge IP('' e), w2)
                  | Inr (ip, ipv4Net) \<Rightarrow>
                      (case AddrAdd (Bridge conf) ipv4Net (addr_add_fault env) w2 of
                         (Some e, w3) \<Rightarrow> (Some (Errorf ''failed to add IP addr '' e), w3)
                       | (None, w3) \<Rightarrow> (None, w3))))
          else (Some (Errorf ''failed to fetch master bridge device '' err), w1))"

definition createTapInterface :: "NetConf \<Rightarrow> string \<Rightarrow> env \<Rightarrow> world \<Rightarrow> (error + Interface) \<times> world" where
  "createTapInterface conf ifName env w =
     (case ensureBridge conf env w of
        (Some err, w1) \<Rightarrow> (Inl err, w1)
      | (None, w1) \<Rightarrow>
          (case LinkAdd KindTuntap ifName (tap_hwaddr env) (add_tap_fault env) w1 of
             (Some e, w2) \<Rightarrow> (Inl (Errorf ''failed to create tap link: '' e), w2)
           | (None, w2) \<Rightarrow>
               (case LinkSetMaster ifName (Bridge conf) (set_master_fault env) w2 of
                  (Some e, w3) \<Rightarrow> (Inl (Errorf ''failed to link tap device '' e), w3)
                | (None, w3) \<Rightarrow>
                    (case LinkByName ifName (lookup_tap_fault env) w3 of
                       (Inl e, w4) \<Rightarrow> (Inl (Errorf ''failed to fetch tap device '' e), w4)
                     | (Inr tapGot, w4) \<Rightarrow>
                         (case LinkSetUp ifName (set_up_fault env) w4 of
                            (Some e, w5) \<Rightarrow> (Inl (Errorf ''failed to set '' e), w5)
                          | (None, w5) \<Rightarrow>
                              (Inr \<lparr>Name = ifName, Mac = l_hwaddr tapGot, Sandbox = []\<rparr>, w5))))))"

definition hostTapName :: string where
  "hostTapName = ''tap0''"

definition metaFile :: string where
  "metaFile = ''/tmp/dans/tap/'' @ hostTapName @ ''.json''"

text \<open>
  How \<open>cmdAdd\<close> ends: it returns an error value (nil is \<open>None\<close>), or it panics.
\<close>

datatype outcome = Returned "error option" | Panicked

text \<open>
  The three deferred functions of \<open>cmdAdd\<close>, in the order the source registers them.
  Each reads the local variables \<open>err\<close> and \<open>result\<close> as they are when it runs.
  \<^item> Lines 143 to 146: \<open>dan.FromResult\<close> reads the fields of \<open>result\<close>, so a nil \<open>result\<close>
    is a nil-pointer panic before \<open>Save\<close> is called (\<open>True\<close> in the first component);
    the error of \<open>Save\<close> is dropped.
  \<^item> Lines 149 to 153: when \<open>err\<close> is not nil the link is deleted and \<open>err\<close> is overwritten
    with the error of the deletion.
  \<^item> Lines 161 to 165: when \<open>err\<close> is not nil the delegate's release is called; its error
    is dropped.
\<close>

definition deferred_save :: "CmdArgs \<Rightarrow> Result option \<Rightarrow> env \<Rightarrow> world \<Rightarrow> bool \<times> world" where
  "deferred_save args result env w =
     (case result of
        None \<Rightarrow> (True, w)
      | Some r \<Rightarrow>
          (let meta = FromResult DirectAttachableNetworkTypeTap hostTapName (IfName args) r
           in (False, snd (Save meta metaFile env w))))"

definition deferred_del_link :: "error option \<Rightarrow> env \<Rightarrow> world \<Rightarrow> error option \<times> world" where
  "deferred_del_link err env w =
     (if err \<noteq> None then DelLinkByName hostTapName (del_link_fault env) w else (err, w))"

definition deferred_exec_del :: "error option \<Rightarrow> NetConf \<Rightarrow> CmdArgs \<Rightarrow> env \<Rightarrow> world \<Rightarrow> world" where
  "deferred_exec_del err conf args env w =
     (if err \<noteq> None then snd (ExecDel (IPAM_Type conf) (StdinData args) env w) else w)"

text \<open>
  Leaving \<open>cmdAdd\<close> once the first two deferred functions are registered. Go runs deferred
  functions last registered first: the release (when \<open>registered\<close>, that is after line
  165), then the link deletion, then the save. The function has no named result, so the
  value \<open>rv\<close> given to \<open>return\<close> is fixed before they run, and they see the local \<open>err\<close>,
  which a \<open>return\<close> of a fresh error does not assign. \<open>panicking\<close> says that the body
  itself panicked; the deferred functions run all the same.
\<close>

definition leave ::
  "bool \<Rightarrow> bool \<Rightarrow> error option \<Rightarrow> error option \<Rightarrow> Result option \<Rightarrow> NetConf \<Rightarrow> CmdArgs \<Rightarrow> env \<Rightarrow> world
     \<Rightarrow> outcome \<times> world" where
  "leave registered panicking rv err result conf args env w =
     (let w1 = (if registered then deferred_exec_del err conf args env w else w);
          (err1, w2) = deferred_del_link err env w1;
          (panicked, w3) = deferred_save args result env w2
      in (if panicking \<or> panicked then Panicked else Returned rv, w3))"

text \<open>
  Lines 177 to 187: every IP configuration is bound to interface index 0, the interface
  list is the tap interface, and the path of the record goes into the annotations under
  \<open>metafile\<close> (a nil map is made first).
\<close>

definition compose_result :: "Result \<Rightarrow> Interface \<Rightarrow> Result" where
  "compose_result result tapInterface =
     result\<lparr>IPs := map (\<lambda>ipc. ipc\<lparr>ipc_Interface := Some 0\<rparr>) (IPs result),
            Interfaces := [tapInterface],
            Annotations := Some (AList.update ''metafile'' metaFile
                                   (case Annotations result of None \<Rightarrow> [] | Some m \<Rightarrow> m))\<rparr>"

definition cmdAdd :: "CmdArgs \<Rightarrow> env \<Rightarrow> world \<Rightarrow> outcome \<times> world" where
  "cmdAdd args env w =
     (case parseNetConf (StdinData args) env of
        Inl err \<Rightarrow> (Returned (Some err), w)
      | Inr conf \<Rightarrow>
          if IPAM_Type conf = [] then
            (Returned (Some (ErrorsNew ''tap interface requires an IPAM configuration'')), w)
          else
            (case createTapInterface conf hostTapName env w of
               (Inl err, w1) \<Rightarrow> (Returned (Some err), w1)
             | (Inr tapInterface, w1) \<Rightarrow>
                 (case ExecAdd (IPAM_Type conf) (StdinData args) env w1 of
                    (Inl err, w2) \<Rightarrow>
                      leave False False (Some err) (Some err) (Some empty_Result) conf args env w2
                  | (Inr r, w2) \<Rightarrow>
                      (case NewResultFromResult r env of
                         (result, Some err) \<Rightarrow>
                           leave True False (Some err) (Some err) result conf args env w2
                       | (None, None) \<Rightarrow>
                           leave True True None None None conf args env w2
                       | (Some result, None) \<Rightarrow>
                           if IPs result = [] then
                             leave True False
                               (Some (ErrorsNew ''IPAM plugin returned missing IP config''))
                               None (Some result) conf args env w2
                           else
                             (let result1 = compose_result result tapInterface;
                                  (rv, w3) = PrintResult result1 (CNIVersion conf) env w2
                              in leave True False rv None (Some result1) conf args env w3)))))"

definition cmdDel :: "CmdArgs \<Rightarrow> env \<Rightarrow> world \<Rightarrow> error option \<times> world" where
  "cmdDel args env w =
     (case parseNetConf (StdinData args) env of
        Inl err \<Rightarrow> (Some err, w)
      | Inr conf \<Rightarrow>
          (case ExecDel (IPAM_Type conf) (StdinData args) env w of
             (Some err, w1) \<Rightarrow> (Some err, w1)
           | (None, w1) \<Rightarrow>
               (case DelLinkByName ''tap0'' (del_link_fault env) w1 of
                  (err, w2) \<Rightarrow>
                    if err \<noteq> None \<and> err = Some ErrLinkNotFound then (None, w2)
                    else if err \<noteq> None then
                      (if err = Some NSPathNotExistErr then (None, w2) else (err, w2))
                    else (None, w2))))"

definition cmdCheck :: "CmdArgs \<Rightarrow> env \<Rightarrow> world \<Rightarrow> error option \<times> world" where
  "cmdCheck args env w =
     (case parseNetConf (StdinData args) env of
        Inl err \<Rightarrow> (Some err, w)
      | Inr conf \<Rightarrow> (None, w))"

section \<open>Scenarios\<close>

text \<open>
  Scenario A of the spec: bridge \<open>br-test\<close>, bridge address \<open>10.0.0.1/24\<close>, delegate
  \<open>static\<close> with one address; the host has no link yet. The configuration text stands
  for the JSON document; \<open>json.Unmarshal\<close> decodes it to the configuration and rejects
  any other text. No collaborator fails.
\<close>

definition scenario_stdin :: string where
  "scenario_stdin = ''scenario A configuration''"

definition scenario_conf :: NetConf where
  "scenario_conf = \<lparr>CNIVersion = ''1.0.0'', IPAM_Type = ''static'',
     Bridge = ''br-test'', BridgeIP = ''10.0.0.1/24''\<rparr>"

definition scenario_args :: CmdArgs where
  "scenario_args = \<lparr>IfName = ''eth0'', StdinData = scenario_stdin\<rparr>"

definition scenario_allocation :: Result where
  "scenario_allocation = empty_Result
     \<lparr>res_CNIVersion := ''1.0.0'',
      IPs := [\<lparr>ipc_Interface = None, ipc_Address = ''10.0.0.2/24'', ipc_Gateway = ''10.0.0.1''\<rparr>]\<rparr>"

definition scenario_env :: env where
  "scenario_env =
     \<lparr>unmarshal = (\<lambda>s. if s = scenario_stdin then Inr scenario_conf
                      else Inl (Failure ''invalid character'')),
      parse_cidr_other = (\<lambda>s. None),
      lookup_bridge_fault = None,
      add_bridge_fault = None,
      bridge_hwaddr = ''02:00:00:00:00:02'',
      addr_add_fault = None,
      add_tap_fault = None,
      tap_hwaddr = ''02:00:00:00:00:01'',
      set_master_fault = None,
      lookup_tap_fault = None,
      set_up_fault = None,
      del_link_fault = None,
      exec_add = Inr ''static result'',
      exec_del_fault = None,
      convert = (Some scenario_allocation, None),
      print_fault = None,
      mkdir_fault = None,
      write_fault = None\<rparr>"

definition empty_host :: world where
  "empty_host = \<lparr>links = Map.empty, trace = []\<rparr>"

text \<open>A host on which the bridge \<open>br-test\<close> already exists, with the address \<open>10.0.0.1/24\<close>.\<close>

definition bridge_host :: world where
  "bridge_host =
     \<lparr>links = [''br-test'' \<mapsto>
        \<lparr>l_kind = KindBridge,
         l_addrs = [\<lparr>IP = [10, 0, 0, 1], Mask = [255, 255, 255, 0]\<rparr>],
         l_master = None, l_up = True, l_hwaddr = ''02:00:00:00:00:ff''\<rparr>],
      trace = []\<rparr>"

text \<open>The same invocation when the kernel rejects the bridge bind (scenario D of the spec).\<close>

definition bind_failure_env :: env where
  "bind_failure_env = scenario_env\<lparr>set_master_fault := Some ''operation not permitted''\<rparr>"

text \<open>The delegate's allocation call fails.\<close>

definition allocation_failure_env :: env where
  "allocation_failure_env = scenario_env\<lparr>exec_add := Inl (Failure ''no addresses available'')\<rparr>"

text \<open>The delegate answers with zero IP configurations (scenario B of the spec).\<close>

definition empty_allocation_env :: env where
  "empty_allocation_env = scenario_env\<lparr>convert := (Some (scenario_allocation\<lparr>IPs := []\<rparr>), None)\<rparr>"

text \<open>
  The conversion of the delegate's answer fails: \<open>NewResultFromResult\<close> returns a nil
  result and an error.
\<close>

definition conversion_failure_env :: env where
  "conversion_failure_env = scenario_env\<lparr>convert := (None, Some (Failure ''unsupported CNI result version''))\<rparr>"

text \<open>The configuration of scenario A with an empty bridge name.\<close>

definition empty_bridge_env :: env where
  "empty_bridge_env = scenario_env\<lparr>unmarshal := (\<lambda>s. Inr (scenario_conf\<lparr>Bridge := []\<rparr>))\<rparr>"

text \<open>The configuration of scenario A without a delegate type.\<close>

definition no_ipam_env :: env where
  "no_ipam_env = scenario_env\<lparr>unmarshal := (\<lambda>s. Inr (scenario_conf\<lparr>IPAM_Type := []\<rparr>))\<rparr>"

text \<open>The delegate's release call fails.\<close>

definition release_failure_env :: env where
  "release_failure_env = scenario_env\<lparr>exec_del_fault := Some (Failure ''release failed'')\<rparr>"

section \<open>Reading the record of calls\<close>

text \<open>The calls made between two states of the host.\<close>

definition new_events :: "world \<Rightarrow> world \<Rightarrow> event list" where
  "new_events w w' = drop (length (trace w)) (trace w')"

text \<open>Link operations of \<open>createTapInterface\<close>.\<close>

fun is_provisioning :: "event \<Rightarrow> bool" where
  "is_provisioning (EvLinkByName n) = True"
| "is_provisioning (EvLinkAdd k n) = True"
| "is_provisioning (EvAddrAdd n a) = True"
| "is_provisioning (EvLinkSetMaster n m) = True"
| "is_provisioning (EvLinkSetUp n) = True"
| "is_provisioning e = False"

text \<open>Rollback calls: the deletion of a link and the delegate's release.\<close>

fun is_rollback :: "event \<Rightarrow> bool" where
  "is_rollback (EvDelLinkByName n) = True"
| "is_rollback (EvExecDel t d) = True"
| "is_rollback e = False"

text \<open>The delegate's allocation call.\<close>

fun is_allocation :: "event \<Rightarrow> bool" where
  "is_allocation (EvExecAdd t d) = True"
| "is_allocation e = False"

text \<open>The file-system calls of \<open>Save\<close>.\<close>

fun is_record_write :: "event \<Rightarrow> bool" where
  "is_record_write (EvMkdirAll p m) = True"
| "is_record_write (EvWriteFile p b m) = True"
| "is_record_write e = False"

text \<open>
  The ordering the spec states for a rollback: when the release is called, a link
  deletion has been called before it (\<open>deleted\<close> says whether one has been seen).
\<close>

fun deletion_before_release :: "bool \<Rightarrow> event list \<Rightarrow> bool" where
  "deletion_before_release deleted [] = True"
| "deletion_before_release deleted (EvDelLinkByName n # es) = deletion_before_release True es"
| "deletion_before_release deleted (EvExecDel t d # es) =
     (deleted \<and> deletion_before_release deleted es)"
| "deletion_before_release deleted (e # es) = deletion_before_release deleted es"

text \<open>
  The permissions the spec states for the record: no bit for group or others (octal
  \<open>077\<close> is 63), in every file-system call.
\<close>

definition owner_only :: "32 word \<Rightarrow> bool" where
  "owner_only mode = (mode AND 63 = 0)"

fun restricted_to_owner :: "event \<Rightarrow> bool" where
  "restricted_to_owner (EvMkdirAll p m) = owner_only m"
| "restricted_to_owner (EvWriteFile p b m) = owner_only m"
| "restricted_to_owner e = True"

section \<open>Facts about the Link Provider and the library functions\<close>

lemma new_events_append: "trace w' = trace w @ evs \<Longrightarrow> new_events w w' = evs"
  by (simp add: new_events_def)

lemma provisioning_not_rollback: "list_all is_provisioning evs \<Longrightarrow> filter is_rollback evs = []"
  by (induction evs) (auto elim: is_provisioning.elims)

lemma provisioning_not_allocation: "list_all is_provisioning evs \<Longrightarrow> filter is_allocation evs = []"
  by (induction evs) (auto elim: is_provisioning.elims)

lemma provisioning_not_record_write:
  "list_all is_provisioning evs \<Longrightarrow> filter is_record_write evs = []"
  by (induction evs) (auto elim: is_provisioning.elims)

lemma Dir_metaFile: "Dir metaFile = ''/tmp/dans/tap''"
  by (simp add: Dir_def Clean_def metaFile_def hostTapName_def)

lemma ParseCIDR_scenario:
  "ParseCIDR ''10.0.0.1/24'' env =
     Inr ([10, 0, 0, 1], \<lparr>IP = [10, 0, 0, 0], Mask = [255, 255, 255, 0]\<rparr>)"
proof -
  have "parseCIDR4 ''10.0.0.1/24'' =
     Some ([10, 0, 0, 1], \<lparr>IP = [10, 0, 0, 0], Mask = [255, 255, 255, 0]\<rparr>)"
    by code_simp
  then show ?thesis
    by (simp add: ParseCIDR_def)
qed

lemma perm_values: "perm_0755 = 493" "perm_0644 = 420"
  by (simp_all add: perm_0755_def perm_0644_def)

lemma LinkByName_spec:
  "LinkByName n f w = (r, w') \<Longrightarrow>
     w' = emit (EvLinkByName n) w \<and>
     (\<forall>l. r = Inr l \<longrightarrow> links w n = Some l) \<and>
     (r = Inl LinkNotFoundError \<longrightarrow> links w n = None)"
  by (auto simp: LinkByName_def Let_def split: option.splits)

lemma LinkAdd_spec:
  "LinkAdd k n hw f w = (r, w') \<Longrightarrow>
     trace w' = trace w @ [EvLinkAdd k n] \<and>
     (case r of
        None \<Rightarrow> links w n = None \<and> links w' = (links w)(n \<mapsto> new_link k hw)
      | Some e \<Rightarrow> links w' = links w)"
  by (auto simp: LinkAdd_def emit_def Let_def split: option.splits if_splits)

lemma AddrAdd_spec:
  "AddrAdd n a f w = (r, w') \<Longrightarrow>
     trace w' = trace w @ [EvAddrAdd n a] \<and>
     (case r of
        None \<Rightarrow> (\<exists>l. links w n = Some l \<and>
                  links w' = (links w)(n \<mapsto> l\<lparr>l_addrs := l_addrs l @ [a]\<rparr>))
      | Some e \<Rightarrow> links w' = links w)"
  by (auto simp: AddrAdd_def emit_def Let_def split: option.splits if_splits)

lemma LinkSetMaster_spec:
  "LinkSetMaster n m f w = (r, w') \<Longrightarrow>
     trace w' = trace w @ [EvLinkSetMaster n m] \<and>
     (case r of
        None \<Rightarrow> (\<exists>l b. links w n = Some l \<and> links w m = Some b \<and> l_kind b = KindBridge \<and>
                  links w' = (links w)(n \<mapsto> l\<lparr>l_master := Some m\<rparr>))
      | Some e \<Rightarrow> links w' = links w)"
  by (auto simp: LinkSetMaster_def emit_def Let_def split: option.splits if_splits)

lemma LinkSetUp_spec:
  "LinkSetUp n f w = (r, w') \<Longrightarrow>
     trace w' = trace w @ [EvLinkSetUp n] \<and>
     (case r of
        None \<Rightarrow> (\<exists>l. links w n = Some l \<and> links w' = (links w)(n \<mapsto> l\<lparr>l_up := True\<rparr>))
      | Some e \<Rightarrow> links w' = links w)"
  by (auto simp: LinkSetUp_def emit_def Let_def split: option.splits if_splits)

section \<open>Facts about \<open>createTapInterface\<close>\<close>

text \<open>
  The bridge block starts with the lookup of the bridge and makes link operations only;
  it makes no other call when the bridge exists; it leaves every link that exists as it
  is and removes none; when it goes on, the bridge exists.
\<close>

lemma ensureBridge_spec:
  assumes "ensureBridge conf env w = (r, w')"
  shows "\<exists>evs. trace w' = trace w @ EvLinkByName (Bridge conf) # evs \<and>
           list_all is_provisioning evs \<and> (links w (Bridge conf) \<noteq> None \<longrightarrow> evs = [])"
    and "\<And>n l. links w n = Some l \<Longrightarrow> links w' n = Some l"
    and "\<And>n. links w' n = None \<Longrightarrow> links w n = None"
    and "r = None \<Longrightarrow> \<exists>b. links w' (Bridge conf) = Some b"
  using assms
  by (auto simp: ensureBridge_def emit_def
           dest!: LinkByName_spec LinkAdd_spec AddrAdd_spec
           split: option.splits sum.splits if_splits prod.splits)

lemma createTapInterface_trace:
  assumes "createTapInterface conf ifName env w = (r, w')"
  shows "\<exists>evs. trace w' = trace w @ EvLinkByName (Bridge conf) # evs \<and>
           list_all is_provisioning evs \<and>
           (links w (Bridge conf) \<noteq> None \<longrightarrow> EvLinkAdd KindBridge (Bridge conf) \<notin> set evs)"
  using assms
  apply (simp add: createTapInterface_def split: prod.splits option.splits sum.splits)
  apply (auto simp: emit_def
           dest!: ensureBridge_spec(1) LinkByName_spec LinkAdd_spec LinkSetMaster_spec LinkSetUp_spec
           split: option.splits)
  done

lemma createTapInterface_frame:
  assumes c: "createTapInterface conf ifName env w = (r, w')" and l: "links w n = Some l"
  shows "links w' n = Some l"
proof -
  obtain rb wb where b: "ensureBridge conf env w = (rb, wb)"
    by (cases "ensureBridge conf env w")
  have 1: "links wb n = Some l"
    using ensureBridge_spec(2)[OF b l] .
  then have 2: "links wb ifName = None \<Longrightarrow> n \<noteq> ifName"
    by auto
  show ?thesis
    using c b 1 2
    by (auto simp: createTapInterface_def emit_def
             dest!: LinkByName_spec LinkAdd_spec LinkSetMaster_spec LinkSetUp_spec
             split: option.splits sum.splits prod.splits)
qed

lemma createTapInterface_ok:
  assumes c: "createTapInterface conf ifName env w = (Inr ti, w')"
  shows "links w ifName = None"
    and "\<exists>l. links w' ifName = Some l \<and> l_up l \<and> l_master l = Some (Bridge conf) \<and>
           l_kind l = KindTuntap"
    and "\<exists>b. links w' (Bridge conf) = Some b \<and> l_kind b = KindBridge"
    and "Name ti = ifName"
proof -
  obtain rb wb where b: "ensureBridge conf env w = (rb, wb)"
    by (cases "ensureBridge conf env w")
  have 1: "links wb ifName = None \<Longrightarrow> links w ifName = None"
    using ensureBridge_spec(3)[OF b] .
  show "links w ifName = None"
    using c b 1
    by (auto simp: createTapInterface_def emit_def
             dest!: LinkByName_spec LinkAdd_spec LinkSetMaster_spec LinkSetUp_spec
             split: option.splits sum.splits prod.splits)
  show "\<exists>l. links w' ifName = Some l \<and> l_up l \<and> l_master l = Some (Bridge conf) \<and>
          l_kind l = KindTuntap"
    using c b
    by (auto simp: createTapInterface_def emit_def new_link_def
             dest!: LinkByName_spec LinkAdd_spec LinkSetMaster_spec LinkSetUp_spec
             split: option.splits sum.splits prod.splits)
  show "\<exists>b. links w' (Bridge conf) = Some b \<and> l_kind b = KindBridge"
    using c b
    by (auto simp: createTapInterface_def emit_def new_link_def
             dest!: LinkByName_spec LinkAdd_spec LinkSetMaster_spec LinkSetUp_spec
             split: option.splits sum.splits prod.splits if_splits)
  show "Name ti = ifName"
    using c b
    by (auto simp: createTapInterface_def split: option.splits sum.splits prod.splits)
qed

section \<open>Facts about the deferred functions and \<open>cmdAdd\<close>\<close>

lemma record_write_not_rollback: "list_all is_record_write evs \<Longrightarrow> filter is_rollback evs = []"
  by (induction evs) (auto elim: is_record_write.elims)

lemma Save_spec:
  "\<exists>evs. trace (snd (Save d f env w)) = trace w @ EvMkdirAll (Dir f) perm_0755 # evs \<and>
         list_all is_record_write evs"
  "links (snd (Save d f env w)) = links w"
  by (simp_all add: Save_def emit_def Let_def split: option.splits)

lemma deferred_save_spec:
  "fst (deferred_save args result env w) = (result = None)"
  "links (snd (deferred_save args result env w)) = links w"
  "\<exists>evs. trace (snd (deferred_save args result env w)) = trace w @ evs \<and>
         list_all is_record_write evs \<and> (evs = []) = (result = None)"
  using Save_spec(1)[of "FromResult DirectAttachableNetworkTypeTap hostTapName (IfName args) (the result)" metaFile env w]
  by (auto simp: deferred_save_def Save_spec(2) split: option.splits)

lemma deferred_del_link_spec:
  "trace (snd (deferred_del_link err env w)) =
     trace w @ (if err \<noteq> None then [EvDelLinkByName hostTapName] else [])"
  "links (snd (deferred_del_link err env w)) =
     (if err \<noteq> None \<and> del_link_fault env = None then (links w)(hostTapName := None) else links w)"
  by (auto simp: deferred_del_link_def DelLinkByName_def emit_def Let_def
           split: option.splits del_fault.splits)

lemma deferred_exec_del_spec:
  "trace (deferred_exec_del err conf args env w) =
     trace w @ (if err \<noteq> None then [EvExecDel (IPAM_Type conf) (StdinData args)] else [])"
  "links (deferred_exec_del err conf args env w) = links w"
  by (auto simp: deferred_exec_del_def ExecDel_def emit_def)

lemma leave_spec:
  "fst (leave reg pan rv err result conf args env w) =
     (if pan \<or> result = None then Panicked else Returned rv)"
  "links (snd (leave reg pan rv err result conf args env w)) =
     (if err \<noteq> None \<and> del_link_fault env = None then (links w)(hostTapName := None) else links w)"
  "\<exists>evs. trace (snd (leave reg pan rv err result conf args env w)) =
           trace w @ (if reg \<and> err \<noteq> None then [EvExecDel (IPAM_Type conf) (StdinData args)] else [])
                   @ (if err \<noteq> None then [EvDelLinkByName hostTapName] else []) @ evs \<and>
         list_all is_record_write evs \<and> (evs = []) = (result = None)"
proof -
  let ?w1 = "if reg then deferred_exec_del err conf args env w else w"
  let ?w2 = "snd (deferred_del_link err env ?w1)"
  have l: "leave reg pan rv err result conf args env w =
      (if pan \<or> fst (deferred_save args result env ?w2) then Panicked else Returned rv,
       snd (deferred_save args result env ?w2))"
    by (simp add: leave_def Let_def split: prod.splits)
  show "fst (leave reg pan rv err result conf args env w) =
     (if pan \<or> result = None then Panicked else Returned rv)"
    by (simp add: l deferred_save_spec(1))
  show "links (snd (leave reg pan rv err result conf args env w)) =
     (if err \<noteq> None \<and> del_link_fault env = None then (links w)(hostTapName := None) else links w)"
    by (simp add: l deferred_save_spec(2) deferred_del_link_spec(2) deferred_exec_del_spec(2))
  show "\<exists>evs. trace (snd (leave reg pan rv err result conf args env w)) =
           trace w @ (if reg \<and> err \<noteq> None then [EvExecDel (IPAM_Type conf) (StdinData args)] else [])
                   @ (if err \<noteq> None then [EvDelLinkByName hostTapName] else []) @ evs \<and>
         list_all is_record_write evs \<and> (evs = []) = (result = None)"
    using deferred_save_spec(3)[of args result env ?w2]
    by (auto simp: l deferred_del_link_spec(1) deferred_exec_del_spec(1))
qed


lemma cmdAdd_unfold:
  assumes p: "parseNetConf (StdinData args) env = Inr conf"
    and t: "IPAM_Type conf \<noteq> []"
    and c: "createTapInterface conf hostTapName env w = (Inr ti, w1)"
  shows "cmdAdd args env w =
    (let w2 = emit (EvExecAdd (IPAM_Type conf) (StdinData args)) w1 in
     case exec_add env of
       Inl e \<Rightarrow> leave False False (Some e) (Some e) (Some empty_Result) conf args env w2
     | Inr r \<Rightarrow>
        (case convert env of
           (result, Some e) \<Rightarrow> leave True False (Some e) (Some e) result conf args env w2
         | (None, None) \<Rightarrow> leave True True None None None conf args env w2
         | (Some result, None) \<Rightarrow>
             if IPs result = [] then
               leave True False (Some (ErrorsNew ''IPAM plugin returned missing IP config''))
                 None (Some result) conf args env w2
             else
               leave True False (print_fault env) None (Some (compose_result result ti)) conf args env
                 (emit (EvPrintResult (compose_result result ti) (CNIVersion conf)) w2)))"
  using p t c
  by (simp add: cmdAdd_def ExecAdd_def NewResultFromResult_def PrintResult_def Let_def
           split: sum.splits option.splits prod.splits)

lemma cmdAdd_created:
  assumes p: "parseNetConf (StdinData args) env = Inr conf"
    and t: "IPAM_Type conf \<noteq> []"
    and c: "createTapInterface conf hostTapName env w = (Inr ti, w1)"
  shows "\<exists>reg rv err result pre evs.
      fst (cmdAdd args env w) = (if result = None then Panicked else Returned rv) \<and>
      links (snd (cmdAdd args env w)) =
        (if err \<noteq> None \<and> del_link_fault env = None then (links w1)(hostTapName := None)
         else links w1) \<and>
      trace (snd (cmdAdd args env w)) =
        trace w1 @ EvExecAdd (IPAM_Type conf) (StdinData args) # pre
          @ (if reg \<and> err \<noteq> None then [EvExecDel (IPAM_Type conf) (StdinData args)] else [])
          @ (if err \<noteq> None then [EvDelLinkByName hostTapName] else []) @ evs \<and>
      list_all is_record_write evs \<and> (evs = []) = (result = None) \<and>
      (pre = [] \<or> (\<exists>res. pre = [EvPrintResult res (CNIVersion conf)])) \<and>
      (case exec_add env of
         Inl e \<Rightarrow> \<not> reg \<and> err = Some e \<and> rv = Some e \<and> result = Some empty_Result
       | Inr r \<Rightarrow> reg \<and>
           (case convert env of
              (res, Some e) \<Rightarrow> err = Some e \<and> rv = Some e \<and> result = res
            | (res, None) \<Rightarrow> err = None \<and> (result = None) = (res = None)))"
proof -
  let ?w2 = "emit (EvExecAdd (IPAM_Type conf) (StdinData args)) w1"
  note u = cmdAdd_unfold[OF p t c]
  show ?thesis
  proof (cases "exec_add env")
    case (Inl e)
    obtain evs where "trace (snd (leave False False (Some e) (Some e) (Some empty_Result) conf args env ?w2)) =
           trace ?w2 @ (if False \<and> Some e \<noteq> None then [EvExecDel (IPAM_Type conf) (StdinData args)] else [])
                   @ (if Some e \<noteq> None then [EvDelLinkByName hostTapName] else []) @ evs"
        "list_all is_record_write evs" "(evs = []) = (Some empty_Result = None)"
      using leave_spec(3)[of False False "Some e" "Some e" "Some empty_Result" conf args env ?w2] by blast
    then show ?thesis
      using Inl
      apply (rule_tac x=False in exI)
      apply (rule_tac x="Some e" in exI)
      apply (rule_tac x="Some e" in exI)
      apply (rule_tac x="Some empty_Result" in exI)
      apply (rule_tac x="[]" in exI)
      apply (rule_tac x=evs in exI)
      apply (simp add: u Let_def leave_spec(1,2) emit_def)
      done
  next
    case (Inr r)
    obtain res ce where cv: "convert env = (res, ce)"
      by (cases "convert env")
    show ?thesis
    proof (cases ce)
      case (Some e)
      obtain evs where "trace (snd (leave True False (Some e) (Some e) res conf args env ?w2)) =
           trace ?w2 @ (if True \<and> Some e \<noteq> None then [EvExecDel (IPAM_Type conf) (StdinData args)] else [])
                   @ (if Some e \<noteq> None then [EvDelLinkByName hostTapName] else []) @ evs"
        "list_all is_record_write evs" "(evs = []) = (res = None)"
        using leave_spec(3)[of True False "Some e" "Some e" res conf args env ?w2] by blast
      then show ?thesis
        using Inr cv Some
        apply (rule_tac x=True in exI)
        apply (rule_tac x="Some e" in exI)
        apply (rule_tac x="Some e" in exI)
        apply (rule_tac x=res in exI)
        apply (rule_tac x="[]" in exI)
        apply (rule_tac x=evs in exI)
        apply (cases res; simp add: u Let_def leave_spec(1,2) emit_def)
        done
    next
      case None
      show ?thesis
      proof (cases res)
        case N: None
        obtain evs where "trace (snd (leave True True None None None conf args env ?w2)) =
           trace ?w2 @ (if True \<and> (None::error option) \<noteq> None then [EvExecDel (IPAM_Type conf) (StdinData args)] else [])
                   @ (if (None::error option) \<noteq> None then [EvDelLinkByName hostTapName] else []) @ evs"
          "list_all is_record_write evs" "(evs = []) = ((None::Result option) = None)"
          using leave_spec(3)[of True True None None None conf args env ?w2] by blast
        then show ?thesis
          using Inr cv None N
          apply (rule_tac x=True in exI)
          apply (rule_tac x=None in exI)
          apply (rule_tac x=None in exI)
          apply (rule_tac x=None in exI)
          apply (rule_tac x="[]" in exI)
          apply (rule_tac x=evs in exI)
          apply (simp add: u Let_def leave_spec(1,2) emit_def)
          done
      next
        case S: (Some result)
        show ?thesis
        proof (cases "IPs result = []")
          case True
          let ?rv = "Some (ErrorsNew ''IPAM plugin returned missing IP config'')"
          obtain evs where "trace (snd (leave True False ?rv None (Some result) conf args env ?w2)) =
             trace ?w2 @ (if True \<and> (None::error option) \<noteq> None then [EvExecDel (IPAM_Type conf) (StdinData args)] else [])
                   @ (if (None::error option) \<noteq> None then [EvDelLinkByName hostTapName] else []) @ evs"
            "list_all is_record_write evs" "(evs = []) = (Some result = None)"
            using leave_spec(3)[of True False ?rv None "Some result" conf args env ?w2] by blast
          then show ?thesis
            using Inr cv None S True
            apply (rule_tac x=True in exI)
            apply (rule_tac x="?rv" in exI)
            apply (rule_tac x=None in exI)
            apply (rule_tac x="Some result" in exI)
            apply (rule_tac x="[]" in exI)
            apply (rule_tac x=evs in exI)
            apply (simp add: u Let_def leave_spec(1,2) emit_def)
            done
        next
          case False
          let ?r1 = "compose_result result ti"
          let ?w3 = "emit (EvPrintResult ?r1 (CNIVersion conf)) ?w2"
          obtain evs where "trace (snd (leave True False (print_fault env) None (Some ?r1) conf args env ?w3)) =
             trace ?w3 @ (if True \<and> (None::error option) \<noteq> None then [EvExecDel (IPAM_Type conf) (StdinData args)] else [])
                   @ (if (None::error option) \<noteq> None then [EvDelLinkByName hostTapName] else []) @ evs"
            "list_all is_record_write evs" "(evs = []) = (Some ?r1 = None)"
            using leave_spec(3)[of True False "print_fault env" None "Some ?r1" conf args env ?w3] by blast
          then show ?thesis
            using Inr cv None S False
            apply (rule_tac x=True in exI)
            apply (rule_tac x="print_fault env" in exI)
            apply (rule_tac x=None in exI)
            apply (rule_tac x="Some ?r1" in exI)
            apply (rule_tac x="[EvPrintResult ?r1 (CNIVersion conf)]" in exI)
            apply (rule_tac x=evs in exI)
            apply (simp add: u Let_def leave_spec(1,2) emit_def)
            done
        qed
      qed
    qed
  qed
qed

section \<open>The claims\<close>

text \<open>
  C1. The claim: an ADD that fails at any step leaves no host-side link it created and
  no allocated address; when binding the tap device to the bridge fails, the tap device
  is deleted before the error is returned, and the Address Allocator is never invoked.
  The code at that input: the bridge \<open>br-test\<close> exists and the kernel rejects the bind.
  \<open>createTapInterface\<close> returns the error of line 101 and \<open>cmdAdd\<close> returns it on line 138,
  before any deferred function is registered: the calls made are the bridge lookup, the
  creation of \<open>tap0\<close> and the refused bind, and \<open>tap0\<close> is still on the host afterwards,
  unbound and down. The Address Allocator is indeed not invoked.
\<close>

theorem cmdAdd_bind_failure_leaves_tap:
  "fst (cmdAdd scenario_args bind_failure_env bridge_host) =
     Returned (Some (Errorf ''failed to link tap device '' (Failure ''operation not permitted'')))
   \<and> links (snd (cmdAdd scenario_args bind_failure_env bridge_host)) hostTapName =
       Some (new_link KindTuntap ''02:00:00:00:00:01'')
   \<and> new_events bridge_host (snd (cmdAdd scenario_args bind_failure_env bridge_host)) =
       [EvLinkByName ''br-test'', EvLinkAdd KindTuntap ''tap0'',
        EvLinkSetMaster ''tap0'' ''br-test'']"
  by code_simp

text \<open>
  C2, as the code has it. The claim says that in a rollback the tap device is deleted
  before the release is invoked. Go runs deferred functions last registered first, and the
  release is registered last, so the order is the other way round. For every ADD, the
  rollback calls it makes are none, or the deletion of \<open>tap0\<close> alone, or the release
  (with the delegate type and the raw configuration) followed by the deletion of \<open>tap0\<close>;
  where a rollback call is made, \<open>tap0\<close> did not exist before this invocation; and every
  link that existed before the invocation, the bridge included, is there afterwards as
  it was.
\<close>

theorem cmdAdd_rollback_order:
  "(filter is_rollback (new_events w (snd (cmdAdd args env w))) = [] \<or>
    links w hostTapName = None \<and>
      (filter is_rollback (new_events w (snd (cmdAdd args env w))) = [EvDelLinkByName hostTapName] \<or>
       (\<exists>conf. parseNetConf (StdinData args) env = Inr conf \<and>
          filter is_rollback (new_events w (snd (cmdAdd args env w))) =
            [EvExecDel (IPAM_Type conf) (StdinData args), EvDelLinkByName hostTapName]))) \<and>
   (\<forall>n l. links w n = Some l \<longrightarrow> links (snd (cmdAdd args env w)) n = Some l)"
proof (cases "parseNetConf (StdinData args) env")
  case (Inl e)
  then show ?thesis
    by (simp add: cmdAdd_def new_events_def)
next
  case p: (Inr conf)
  show ?thesis
  proof (cases "IPAM_Type conf = []")
    case True
    with p show ?thesis
      by (simp add: cmdAdd_def new_events_def)
  next
    case t: False
    obtain r w1 where c: "createTapInterface conf hostTapName env w = (r, w1)"
      by (cases "createTapInterface conf hostTapName env w")
    obtain evs where tr: "trace w1 = trace w @ EvLinkByName (Bridge conf) # evs"
        and pr: "list_all is_provisioning evs"
      using createTapInterface_trace[OF c] by blast
    have nr: "filter is_rollback evs = []"
      using pr by (rule provisioning_not_rollback)
    have fr: "\<And>n l. links w n = Some l \<Longrightarrow> links w1 n = Some l"
      using createTapInterface_frame[OF c] .
    show ?thesis
    proof (cases r)
      case (Inl e)
      with p t c tr nr fr show ?thesis
        by (simp add: cmdAdd_def new_events_def)
    next
      case (Inr ti)
      note c' = c[unfolded Inr]
      have ab: "links w hostTapName = None"
        using createTapInterface_ok(1)[OF c'] .
      obtain reg and err :: "error option" and pre sv where
          l: "links (snd (cmdAdd args env w)) =
            (if err \<noteq> None \<and> del_link_fault env = None then (links w1)(hostTapName := None)
             else links w1)"
        and tc: "trace (snd (cmdAdd args env w)) =
            trace w1 @ EvExecAdd (IPAM_Type conf) (StdinData args) # pre
              @ (if reg \<and> err \<noteq> None then [EvExecDel (IPAM_Type conf) (StdinData args)] else [])
              @ (if err \<noteq> None then [EvDelLinkByName hostTapName] else []) @ sv"
        and sv: "list_all is_record_write sv"
        and pre: "pre = [] \<or> (\<exists>res. pre = [EvPrintResult res (CNIVersion conf)])"
        using cmdAdd_created[OF p t c'] by blast
      have svr: "filter is_rollback sv = []"
        using sv by (rule record_write_not_rollback)
      have prr: "filter is_rollback pre = []"
        using pre by auto
      have ne: "new_events w (snd (cmdAdd args env w)) =
          EvLinkByName (Bridge conf) # evs @ EvExecAdd (IPAM_Type conf) (StdinData args) # pre
              @ (if reg \<and> err \<noteq> None then [EvExecDel (IPAM_Type conf) (StdinData args)] else [])
              @ (if err \<noteq> None then [EvDelLinkByName hostTapName] else []) @ sv"
        by (rule new_events_append) (simp add: tc tr)
      have frame: "\<forall>n l. links w n = Some l \<longrightarrow> links (snd (cmdAdd args env w)) n = Some l"
        using fr ab by (auto simp: l)
      show ?thesis
        using frame ab p
        by (simp add: ne nr svr prr)
    qed
  qed
qed

text \<open>
  C2, witness: the conversion of the delegate's answer fails on a host where the bridge
  exists. The rollback calls are the release and then the deletion of \<open>tap0\<close>, and the
  bridge is there afterwards as it was.
\<close>

theorem cmdAdd_rollback_order_witness:
  "links bridge_host ''br-test'' =
     Some \<lparr>l_kind = KindBridge,
           l_addrs = [\<lparr>IP = [10, 0, 0, 1], Mask = [255, 255, 255, 0]\<rparr>],
           l_master = None, l_up = True, l_hwaddr = ''02:00:00:00:00:ff''\<rparr> \<and>
   links (snd (cmdAdd scenario_args conversion_failure_env bridge_host)) ''br-test'' =
     Some \<lparr>l_kind = KindBridge,
           l_addrs = [\<lparr>IP = [10, 0, 0, 1], Mask = [255, 255, 255, 0]\<rparr>],
           l_master = None, l_up = True, l_hwaddr = ''02:00:00:00:00:ff''\<rparr> \<and>
   filter is_rollback
     (new_events bridge_host (snd (cmdAdd scenario_args conversion_failure_env bridge_host))) =
     [EvExecDel ''static'' scenario_stdin, EvDelLinkByName hostTapName]"
proof -
  have h: "links bridge_host ''br-test'' =
     Some \<lparr>l_kind = KindBridge,
           l_addrs = [\<lparr>IP = [10, 0, 0, 1], Mask = [255, 255, 255, 0]\<rparr>],
           l_master = None, l_up = True, l_hwaddr = ''02:00:00:00:00:ff''\<rparr>"
    by (simp add: bridge_host_def)
  have k: "links (snd (cmdAdd scenario_args conversion_failure_env bridge_host)) ''br-test'' =
     Some \<lparr>l_kind = KindBridge,
           l_addrs = [\<lparr>IP = [10, 0, 0, 1], Mask = [255, 255, 255, 0]\<rparr>],
           l_master = None, l_up = True, l_hwaddr = ''02:00:00:00:00:ff''\<rparr>"
    using cmdAdd_rollback_order[of bridge_host scenario_args conversion_failure_env] h
    by blast
  have r: "filter is_rollback
     (new_events bridge_host (snd (cmdAdd scenario_args conversion_failure_env bridge_host))) =
     [EvExecDel ''static'' scenario_stdin, EvDelLinkByName hostTapName]"
    by code_simp
  show ?thesis
    using h k r by simp
qed

text \<open>
  C2, counterexample to the order as the claim states it: when the conversion of the
  delegate's answer fails, the release is called and no link deletion has been called
  before it.
\<close>

theorem cmdAdd_release_before_deletion_counterexample:
  "\<not> deletion_before_release False
       (new_events bridge_host (snd (cmdAdd scenario_args conversion_failure_env bridge_host)))"
  by code_simp



text \<open>
  C4. The claim: when the allocator answers with zero IP configurations, ADD fails, the
  host-side tap device is removed, and the allocator's release is invoked before ADD
  returns. The code at that input: line 174 returns a fresh error without assigning the
  local \<open>err\<close>, which is nil after the conversion of line 168 succeeded, so neither
  deferred rollback function does anything. ADD returns the error, the allocation call is
  the only call made on the allocator, no link is deleted, and \<open>tap0\<close> stays on the
  host, bound to the bridge and up.
\<close>

theorem cmdAdd_empty_allocation_no_rollback:
  "fst (cmdAdd scenario_args empty_allocation_env bridge_host) =
     Returned (Some (ErrorsNew ''IPAM plugin returned missing IP config''))
   \<and> links (snd (cmdAdd scenario_args empty_allocation_env bridge_host)) hostTapName =
       Some \<lparr>l_kind = KindTuntap, l_addrs = [], l_master = Some ''br-test'', l_up = True,
             l_hwaddr = ''02:00:00:00:00:01''\<rparr>
   \<and> filter is_rollback
        (new_events bridge_host (snd (cmdAdd scenario_args empty_allocation_env bridge_host))) = []
   \<and> filter is_allocation
        (new_events bridge_host (snd (cmdAdd scenario_args empty_allocation_env bridge_host))) =
       [EvExecAdd ''static'' scenario_stdin]"
  by code_simp

text \<open>
  C5. The claim: when the bridge does not exist, ADD creates it and gives it exactly the
  configured CIDR address; in scenario A, with \<open>bridgeIP\<close> \<open>10.0.0.1/24\<close>, the bridge
  carries \<open>10.0.0.1/24\<close>. The code in scenario A: line 73 discards the address that
  \<open>net.ParseCIDR\<close> returns and keeps the network, so the address added to the new bridge
  on line 79 is \<open>10.0.0.0/24\<close>.
\<close>

theorem cmdAdd_scenarioA_bridge_address:
  "fst (cmdAdd scenario_args scenario_env empty_host) = Returned None \<and>
   links (snd (cmdAdd scenario_args scenario_env empty_host)) ''br-test'' =
     Some \<lparr>l_kind = KindBridge,
           l_addrs = [\<lparr>IP = [10, 0, 0, 0], Mask = [255, 255, 255, 0]\<rparr>],
           l_master = None, l_up = False, l_hwaddr = ''02:00:00:00:00:02''\<rparr> \<and>
   ParseCIDR (BridgeIP scenario_conf) scenario_env =
     Inr ([10, 0, 0, 1], \<lparr>IP = [10, 0, 0, 0], Mask = [255, 255, 255, 0]\<rparr>)"
  by code_simp

text \<open>
  C6, as the code has it. After parsing, ADD checks the delegate type only. When the
  type is empty, ADD fails with the configuration error and makes no call at all: no link
  operation, no allocation. When it is not empty, the first call of ADD is the lookup of
  the bridge by the configured name, whatever that name is: the bridge name is not
  checked, and an empty one is looked up like any other.
\<close>

theorem cmdAdd_ipam_type_guard:
  assumes p: "parseNetConf (StdinData args) env = Inr conf"
  shows "(IPAM_Type conf = [] \<longrightarrow>
            cmdAdd args env w =
              (Returned (Some (ErrorsNew ''tap interface requires an IPAM configuration'')), w)) \<and>
         (IPAM_Type conf \<noteq> [] \<longrightarrow>
            (\<exists>evs. new_events w (snd (cmdAdd args env w)) = EvLinkByName (Bridge conf) # evs))"
proof (cases "IPAM_Type conf = []")
  case True
  with p show ?thesis
    by (simp add: cmdAdd_def)
next
  case t: False
  obtain r w1 where c: "createTapInterface conf hostTapName env w = (r, w1)"
    by (cases "createTapInterface conf hostTapName env w")
  obtain evs where tr: "trace w1 = trace w @ EvLinkByName (Bridge conf) # evs"
    using createTapInterface_trace[OF c] by blast
  show ?thesis
  proof (cases r)
    case (Inl e)
    with p t c tr show ?thesis
      by (simp add: cmdAdd_def new_events_def)
  next
    case (Inr ti)
    note c' = c[unfolded Inr]
    obtain rest where tc: "trace (snd (cmdAdd args env w)) = trace w1 @ rest"
      using cmdAdd_created[OF p t c'] by blast
    have "new_events w (snd (cmdAdd args env w)) = EvLinkByName (Bridge conf) # evs @ rest"
      by (rule new_events_append) (simp add: tc tr)
    with t show ?thesis
      by simp
  qed
qed

text \<open>
  C6, witness: without a delegate type ADD returns the configuration error and the host
  is untouched; with the configuration of scenario A its first call is the lookup of
  \<open>br-test\<close>.
\<close>

theorem cmdAdd_ipam_type_guard_witness:
  "cmdAdd scenario_args no_ipam_env bridge_host =
     (Returned (Some (ErrorsNew ''tap interface requires an IPAM configuration'')), bridge_host) \<and>
   (\<exists>evs. new_events bridge_host (snd (cmdAdd scenario_args scenario_env bridge_host)) =
            EvLinkByName ''br-test'' # evs)"
proof -
  have p1: "parseNetConf (StdinData scenario_args) no_ipam_env = Inr (scenario_conf\<lparr>IPAM_Type := []\<rparr>)"
    by code_simp
  have p2: "parseNetConf (StdinData scenario_args) scenario_env = Inr scenario_conf"
    by code_simp
  have t2: "IPAM_Type scenario_conf \<noteq> []" and b2: "Bridge scenario_conf = ''br-test''"
    by (simp_all add: scenario_conf_def)
  show ?thesis
    using cmdAdd_ipam_type_guard[OF p1, of bridge_host]
          cmdAdd_ipam_type_guard[OF p2, of bridge_host] t2 b2
    by simp
qed

text \<open>
  C6, counterexample to the bridge-name part of the claim: with an empty bridge name and
  a delegate type, ADD goes past parsing and makes link operations: it looks the empty
  name up and asks for a bridge of that name.
\<close>

theorem cmdAdd_empty_bridge_counterexample:
  "parseNetConf (StdinData scenario_args) empty_bridge_env = Inr (scenario_conf\<lparr>Bridge := []\<rparr>) \<and>
   Bridge (scenario_conf\<lparr>Bridge := []\<rparr>) = [] \<and>
   new_events empty_host (snd (cmdAdd scenario_args empty_bridge_env empty_host)) =
     [EvLinkByName [], EvLinkAdd KindBridge []]"
  by code_simp

text \<open>
  C7. If the configured bridge exists when ADD starts, it is there afterwards exactly as
  it was, whatever ADD returns, and ADD has called neither the deletion of a link of
  that name nor the creation of a bridge of that name.
\<close>

theorem cmdAdd_preserves_existing_bridge:
  assumes p: "parseNetConf (StdinData args) env = Inr conf"
    and b: "links w (Bridge conf) = Some br"
  shows "links (snd (cmdAdd args env w)) (Bridge conf) = Some br \<and>
         EvDelLinkByName (Bridge conf) \<notin> set (new_events w (snd (cmdAdd args env w))) \<and>
         EvLinkAdd KindBridge (Bridge conf) \<notin> set (new_events w (snd (cmdAdd args env w)))"
proof (cases "IPAM_Type conf = []")
  case True
  with p b show ?thesis
    by (simp add: cmdAdd_def new_events_def)
next
  case t: False
  obtain r w1 where c: "createTapInterface conf hostTapName env w = (r, w1)"
    by (cases "createTapInterface conf hostTapName env w")
  obtain evs where tr: "trace w1 = trace w @ EvLinkByName (Bridge conf) # evs"
      and pr: "list_all is_provisioning evs"
      and nb: "EvLinkAdd KindBridge (Bridge conf) \<notin> set evs"
    using createTapInterface_trace[OF c] b by auto
  have nd: "EvDelLinkByName (Bridge conf) \<notin> set evs"
    using pr by (auto simp: list_all_iff)
  have fr: "links w1 (Bridge conf) = Some br"
    using createTapInterface_frame[OF c b] .
  show ?thesis
  proof (cases r)
    case (Inl e)
    with p t c tr nb nd fr show ?thesis
      by (simp add: cmdAdd_def new_events_def)
  next
    case (Inr ti)
    note c' = c[unfolded Inr]
    have ab: "links w hostTapName = None"
      using createTapInterface_ok(1)[OF c'] .
    then have ne_name: "Bridge conf \<noteq> hostTapName"
      using b by auto
    obtain reg and err :: "error option" and pre sv where
        l: "links (snd (cmdAdd args env w)) =
          (if err \<noteq> None \<and> del_link_fault env = None then (links w1)(hostTapName := None)
           else links w1)"
      and tc: "trace (snd (cmdAdd args env w)) =
          trace w1 @ EvExecAdd (IPAM_Type conf) (StdinData args) # pre
            @ (if reg \<and> err \<noteq> None then [EvExecDel (IPAM_Type conf) (StdinData args)] else [])
            @ (if err \<noteq> None then [EvDelLinkByName hostTapName] else []) @ sv"
      and sv: "list_all is_record_write sv"
      and pre: "pre = [] \<or> (\<exists>res. pre = [EvPrintResult res (CNIVersion conf)])"
      using cmdAdd_created[OF p t c'] by blast
    have svn: "EvDelLinkByName (Bridge conf) \<notin> set sv" "EvLinkAdd KindBridge (Bridge conf) \<notin> set sv"
      using sv by (auto simp: list_all_iff)
    have prn: "EvDelLinkByName (Bridge conf) \<notin> set pre" "EvLinkAdd KindBridge (Bridge conf) \<notin> set pre"
      using pre by auto
    have ne: "new_events w (snd (cmdAdd args env w)) =
        EvLinkByName (Bridge conf) # evs @ EvExecAdd (IPAM_Type conf) (StdinData args) # pre
            @ (if reg \<and> err \<noteq> None then [EvExecDel (IPAM_Type conf) (StdinData args)] else [])
            @ (if err \<noteq> None then [EvDelLinkByName hostTapName] else []) @ sv"
      by (rule new_events_append) (simp add: tc tr)
    show ?thesis
      using fr ne_name nb nd svn prn
      by (simp add: l ne)
  qed
qed

text \<open>
  C7, witness: the bridge \<open>br-test\<close> exists and a later step, the allocation, fails. The
  bridge is there afterwards as it was; it was neither deleted nor created again.
\<close>

theorem cmdAdd_preserves_existing_bridge_witness:
  "fst (cmdAdd scenario_args allocation_failure_env bridge_host) =
     Returned (Some (Failure ''no addresses available'')) \<and>
   links bridge_host ''br-test'' =
     Some \<lparr>l_kind = KindBridge,
           l_addrs = [\<lparr>IP = [10, 0, 0, 1], Mask = [255, 255, 255, 0]\<rparr>],
           l_master = None, l_up = True, l_hwaddr = ''02:00:00:00:00:ff''\<rparr> \<and>
   links (snd (cmdAdd scenario_args allocation_failure_env bridge_host)) ''br-test'' =
     Some \<lparr>l_kind = KindBridge,
           l_addrs = [\<lparr>IP = [10, 0, 0, 1], Mask = [255, 255, 255, 0]\<rparr>],
           l_master = None, l_up = True, l_hwaddr = ''02:00:00:00:00:ff''\<rparr> \<and>
   EvDelLinkByName ''br-test''
     \<notin> set (new_events bridge_host (snd (cmdAdd scenario_args allocation_failure_env bridge_host))) \<and>
   EvLinkAdd KindBridge ''br-test''
     \<notin> set (new_events bridge_host (snd (cmdAdd scenario_args allocation_failure_env bridge_host)))"
proof -
  have p: "parseNetConf (StdinData scenario_args) allocation_failure_env = Inr scenario_conf"
    by code_simp
  have n: "Bridge scenario_conf = ''br-test''"
    by (simp add: scenario_conf_def)
  have b: "links bridge_host (Bridge scenario_conf) =
     Some \<lparr>l_kind = KindBridge,
           l_addrs = [\<lparr>IP = [10, 0, 0, 1], Mask = [255, 255, 255, 0]\<rparr>],
           l_master = None, l_up = True, l_hwaddr = ''02:00:00:00:00:ff''\<rparr>"
    by (simp add: bridge_host_def n)
  have f: "fst (cmdAdd scenario_args allocation_failure_env bridge_host) =
     Returned (Some (Failure ''no addresses available''))"
    by code_simp
  show ?thesis
    using cmdAdd_preserves_existing_bridge[OF p b] b f
    by (simp add: n)
qed

text \<open>
  C8. DEL with a configuration that parses. A failure of the release is returned at
  once: the release is the only call made. When the release succeeds, DEL calls the
  release and then the deletion of \<open>tap0\<close>, and returns success when the deletion
  succeeds, when the device is absent, and when the namespace is gone; any other failure
  of the deletion is returned. After a deletion that is carried out \<open>tap0\<close> is absent.
  So two DELs in succession with the same configuration, the release succeeding in both
  and the deletion failing in neither, both return success, and the second changes no
  link.
\<close>

theorem cmdDel_contract:
  assumes p: "parseNetConf (StdinData args) env = Inr conf"
  shows
   "(\<forall>e. exec_del_fault env = Some e \<longrightarrow>
        cmdDel args env w = (Some e, emit (EvExecDel (IPAM_Type conf) (StdinData args)) w)) \<and>
    (exec_del_fault env = None \<longrightarrow>
        new_events w (snd (cmdDel args env w)) =
          [EvExecDel (IPAM_Type conf) (StdinData args), EvDelLinkByName ''tap0''] \<and>
        fst (cmdDel args env w) =
          (case del_link_fault env of
             None \<Rightarrow> None
           | Some NamespaceGone \<Rightarrow> None
           | Some (DeleteFailed m) \<Rightarrow> Some (Failure m)) \<and>
        (del_link_fault env = None \<longrightarrow> links (snd (cmdDel args env w)) ''tap0'' = None) \<and>
        (\<forall>env2. parseNetConf (StdinData args) env2 = Inr conf \<and> exec_del_fault env2 = None \<and>
                del_link_fault env = None \<and> del_link_fault env2 = None \<longrightarrow>
           fst (cmdDel args env w) = None \<and>
           fst (cmdDel args env2 (snd (cmdDel args env w))) = None \<and>
           links (snd (cmdDel args env2 (snd (cmdDel args env w)))) = links (snd (cmdDel args env w))))"
proof -
  have fail: "\<And>e. exec_del_fault env = Some e \<Longrightarrow>
      cmdDel args env w = (Some e, emit (EvExecDel (IPAM_Type conf) (StdinData args)) w)"
    using p by (simp add: cmdDel_def ExecDel_def)
  have ok: "\<And>e w. parseNetConf (StdinData args) e = Inr conf \<Longrightarrow> exec_del_fault e = None \<Longrightarrow>
      cmdDel args e w =
        (case del_link_fault e of
             None \<Rightarrow> None
           | Some NamespaceGone \<Rightarrow> None
           | Some (DeleteFailed m) \<Rightarrow> Some (Failure m),
         snd (DelLinkByName ''tap0'' (del_link_fault e)
                (emit (EvExecDel (IPAM_Type conf) (StdinData args)) w)))"
    by (simp add: cmdDel_def ExecDel_def DelLinkByName_def emit_def Let_def
             split: option.splits del_fault.splits)
  have del_tr: "\<And>f w. trace (snd (DelLinkByName ''tap0'' f w)) = trace w @ [EvDelLinkByName ''tap0'']"
    by (simp add: DelLinkByName_def emit_def Let_def split: option.splits del_fault.splits)
  have del_links: "\<And>w. links (snd (DelLinkByName ''tap0'' None w)) = (links w)(''tap0'' := None)"
    by (auto simp: DelLinkByName_def emit_def Let_def split: option.splits)
  show ?thesis
    using fail
    by (auto simp: ok p new_events_def del_tr del_links emit_def)
qed

text \<open>
  C8, witness: after the ADD of scenario A, DEL returns success twice in succession and
  \<open>tap0\<close> is gone after the first; a DEL whose release fails returns that failure.
\<close>

theorem cmdDel_contract_witness:
  "fst (cmdDel scenario_args scenario_env (snd (cmdAdd scenario_args scenario_env empty_host))) = None \<and>
   fst (cmdDel scenario_args scenario_env
         (snd (cmdDel scenario_args scenario_env
                (snd (cmdAdd scenario_args scenario_env empty_host))))) = None \<and>
   links (snd (cmdDel scenario_args scenario_env
                (snd (cmdAdd scenario_args scenario_env empty_host)))) ''tap0'' = None \<and>
   fst (cmdDel scenario_args release_failure_env
         (snd (cmdAdd scenario_args scenario_env empty_host))) = Some (Failure ''release failed'')"
proof -
  have p: "parseNetConf (StdinData scenario_args) scenario_env = Inr scenario_conf"
    by code_simp
  have q: "parseNetConf (StdinData scenario_args) release_failure_env = Inr scenario_conf"
    by code_simp
  have e: "exec_del_fault scenario_env = None" and d: "del_link_fault scenario_env = None"
    by (simp_all add: scenario_env_def)
  have r: "exec_del_fault release_failure_env = Some (Failure ''release failed'')"
    by (simp add: release_failure_env_def)
  show ?thesis
    using cmdDel_contract[OF p, of "snd (cmdAdd scenario_args scenario_env empty_host)"]
          cmdDel_contract[OF q, of "snd (cmdAdd scenario_args scenario_env empty_host)"]
          p e d r
    by simp
qed

text \<open>
  C9, as the code has it. The record goes to \<open>/tmp/dans/<kind>/<host device>.json\<close>,
  here \<open>/tmp/dans/tap/tap0.json\<close>. \<open>Save\<close> first creates the directory of that path with
  \<open>MkdirAll\<close> and mode \<open>0755\<close> (owner read, write and search; group and others read and
  search), and \<open>Save\<close> returns the error if that fails; otherwise it writes the file, the
  record marshalled with \<open>MarshalIndent\<close>, an empty prefix and an indent of one space, with
  mode \<open>0644\<close> (owner read and write; group and others read), and returns the error of the
  write.
\<close>

theorem Save_record_file:
  "metaFile =
     ''/tmp/dans/'' @ networkType_string DirectAttachableNetworkTypeTap @ ''/'' @ hostTapName @ ''.json'' \<and>
   new_events w (snd (Save dan metaFile env w)) =
     EvMkdirAll ''/tmp/dans/tap'' perm_0755 #
       (case mkdir_fault env of
          None \<Rightarrow> [EvWriteFile metaFile (MarshalIndent dan [] '' '') perm_0644]
        | Some err \<Rightarrow> []) \<and>
   fst (Save dan metaFile env w) =
     (case mkdir_fault env of None \<Rightarrow> write_fault env | Some err \<Rightarrow> Some err) \<and>
   perm_0644 = (256 + 128) + 32 + 4 \<and>
   perm_0755 = (256 + 128 + 64) + (32 + 8) + (4 + 1)"
  by (simp add: Save_def Dir_metaFile emit_def new_events_def perm_values Let_def split: option.splits)
     (simp add: metaFile_def)

text \<open>
  C9, counterexample to the permissions of the claim: the calls that \<open>Save\<close> makes for the
  record of an ADD are not restricted to the owner.
\<close>

theorem Save_permissions_counterexample:
  "\<not> list_all restricted_to_owner
       (new_events empty_host
          (snd (Save (FromResult DirectAttachableNetworkTypeTap hostTapName ''eth0'' empty_Result)
                  metaFile scenario_env empty_host)))"
  by code_simp

text \<open>
  C10. The claim: a record write is attempted on every ADD in which the tap interface was
  created, also when allocation, result conversion or validation fails afterwards, and
  never when ADD fails before. The code when the conversion fails: \<open>NewResultFromResult\<close>
  leaves \<open>result\<close> nil, the two rollback functions run, and the deferred function of lines
  143 to 146 then reads a field of the nil \<open>result\<close> in \<open>dan.FromResult\<close>: \<open>cmdAdd\<close> panics and
  \<open>Save\<close> is never called.
\<close>

theorem cmdAdd_conversion_failure_no_record:
  "fst (cmdAdd scenario_args conversion_failure_env bridge_host) = Panicked \<and>
   new_events bridge_host (snd (cmdAdd scenario_args conversion_failure_env bridge_host)) =
     [EvLinkByName ''br-test'', EvLinkAdd KindTuntap ''tap0'', EvLinkSetMaster ''tap0'' ''br-test'',
      EvLinkByName ''tap0'', EvLinkSetUp ''tap0'', EvExecAdd ''static'' scenario_stdin,
      EvExecDel ''static'' scenario_stdin, EvDelLinkByName ''tap0''] \<and>
   filter is_record_write
     (new_events bridge_host (snd (cmdAdd scenario_args conversion_failure_env bridge_host))) = []"
  by code_simp

text \<open>
  The other paths of C10 are as the claim says. Once the tap interface is created, no
  call of \<open>Save\<close> is made exactly when the delegate answered and the conversion left
  \<open>result\<close> nil; on every other path the directory creation of \<open>Save\<close> is called.
\<close>

lemma cmdAdd_record_write_attempted:
  assumes p: "parseNetConf (StdinData args) env = Inr conf"
    and t: "IPAM_Type conf \<noteq> []"
    and c: "createTapInterface conf hostTapName env w = (Inr ti, w1)"
  shows "(filter is_record_write (new_events w (snd (cmdAdd args env w))) = []) =
         (\<exists>r. exec_add env = Inr r \<and> fst (convert env) = None)"
proof -
  obtain evs where tr: "trace w1 = trace w @ EvLinkByName (Bridge conf) # evs"
      and pr: "list_all is_provisioning evs"
    using createTapInterface_trace[OF c] by blast
  have nr: "filter is_record_write evs = []"
    using pr by (rule provisioning_not_record_write)
  obtain reg rv err result pre sv where
      tc: "trace (snd (cmdAdd args env w)) =
        trace w1 @ EvExecAdd (IPAM_Type conf) (StdinData args) # pre
          @ (if reg \<and> err \<noteq> None then [EvExecDel (IPAM_Type conf) (StdinData args)] else [])
          @ (if err \<noteq> None then [EvDelLinkByName hostTapName] else []) @ sv"
    and sv: "list_all is_record_write sv"
    and se: "(sv = []) = (result = None)"
    and pre: "pre = [] \<or> (\<exists>res. pre = [EvPrintResult res (CNIVersion conf)])"
    and k: "(case exec_add env of
         Inl e \<Rightarrow> \<not> reg \<and> err = Some e \<and> rv = Some e \<and> result = Some empty_Result
       | Inr r \<Rightarrow> reg \<and>
           (case convert env of
              (res, Some e) \<Rightarrow> err = Some e \<and> rv = Some e \<and> result = res
            | (res, None) \<Rightarrow> err = None \<and> (result = None) = (res = None)))"
    using cmdAdd_created[OF p t c] by blast
  have svf: "filter is_record_write sv = sv"
    using sv by (simp add: list_all_iff)
  have prw: "filter is_record_write pre = []"
    using pre by auto
  have ne: "new_events w (snd (cmdAdd args env w)) =
      EvLinkByName (Bridge conf) # evs @ EvExecAdd (IPAM_Type conf) (StdinData args) # pre
          @ (if reg \<and> err \<noteq> None then [EvExecDel (IPAM_Type conf) (StdinData args)] else [])
          @ (if err \<noteq> None then [EvDelLinkByName hostTapName] else []) @ sv"
    by (rule new_events_append) (simp add: tc tr)
  have "(result = None) = (\<exists>r. exec_add env = Inr r \<and> fst (convert env) = None)"
    using k by (auto split: sum.splits prod.splits option.splits)
  then show ?thesis
    by (simp add: ne nr svf prw se)
qed

text \<open>
  When the configuration does not parse, names no delegate type, or
  \<open>createTapInterface\<close> fails, no call of \<open>Save\<close> is made.
\<close>

lemma cmdAdd_no_record_before_creation:
  assumes "(\<exists>e. parseNetConf (StdinData args) env = Inl e) \<or>
           (\<exists>conf. parseNetConf (StdinData args) env = Inr conf \<and>
              (IPAM_Type conf = [] \<or>
               (\<exists>e w1. createTapInterface conf hostTapName env w = (Inl e, w1))))"
  shows "filter is_record_write (new_events w (snd (cmdAdd args env w))) = []"
proof (cases "parseNetConf (StdinData args) env")
  case (Inl e)
  then show ?thesis
    by (simp add: cmdAdd_def new_events_def)
next
  case p: (Inr conf)
  show ?thesis
  proof (cases "IPAM_Type conf = []")
    case True
    with p show ?thesis
      by (simp add: cmdAdd_def new_events_def)
  next
    case t: False
    with p assms obtain e w1 where c: "createTapInterface conf hostTapName env w = (Inl e, w1)"
      by auto
    obtain evs where tr: "trace w1 = trace w @ EvLinkByName (Bridge conf) # evs"
        and pr: "list_all is_provisioning evs"
      using createTapInterface_trace[OF c] by blast
    have nr: "filter is_record_write evs = []"
      using pr by (rule provisioning_not_record_write)
    from p t c tr nr show ?thesis
      by (simp add: cmdAdd_def new_events_def)
  qed
qed

end
